theory Spec2Isabelle
  imports Complex_Main
begin

section \<open>Robot-soccer physics kernel: ball and robot models\<close>

text \<open>
  The embedding follows \<^verbatim>\<open>GameEngine/ball_model.py\<close> and
  \<^verbatim>\<open>GameEngine/robot_model.py\<close>. Python floats are modelled as real numbers:
  comparisons, branches and the algebra of the formulas are those of the source, rounding
  and overflow of IEEE arithmetic are not represented. \<^verbatim>\<open>x ** 0.5\<close> is only
  applied to sums of squares and to a discriminant already tested to be non-negative, so it
  is the real square root. Every Python exception is a value of \<open>py_error\<close>.
  The step of the robot is modelled a second time in double precision, for the one
  property that rounding decides.

  The attributes are Python numbers (the constructors' arguments are annotated
  \<^verbatim>\<open>float\<close>), on which a division by zero raises \<^verbatim>\<open>ZeroDivisionError\<close>;
  this is the error the model records at every division. On numpy scalars, which the
  coordinates of a robot become once \<^verbatim>\<open>np.cos\<close> has entered them, the same division
  returns \<open>inf\<close> or \<open>nan\<close> with a warning: undefined as well, but not raised.
\<close>

datatype py_error = ZeroDivisionError | TypeError | ValueError | IndexError

subsection \<open>Data\<close>

text \<open>\<^verbatim>\<open>class BallActions(Enum)\<close>\<close>

datatype BallActions = NO | KICK | RECEIVE

text \<open>The attributes of \<^verbatim>\<open>BallBasicModel\<close>, in the order of its constructor.\<close>

record ball =
  ball_dt :: real
  heading_angle :: real
  x_vel :: real
  y_vel :: real
  max_vel :: real
  x_pos :: real
  y_pos :: real
  friction :: real
  mass :: real
  vel_bounce_coefficient :: real
  ball_radius :: real

text \<open>
  The constructor \<^verbatim>\<open>BallBasicModel(init_x_pos, init_y_pos, dt=0.1, friction=0.01,
  mass=0.1, vel_bounce_coef=0.8, radius=0.01, ball_max_vel=3)\<close>.
\<close>

definition BallBasicModel ::
  "real \<Rightarrow> real \<Rightarrow> real \<Rightarrow> real \<Rightarrow> real \<Rightarrow> real \<Rightarrow> real \<Rightarrow> real \<Rightarrow> ball" where
  "BallBasicModel init_x_pos init_y_pos dt fr m vel_bounce_coef rad ball_max_vel =
     \<lparr>ball_dt = dt, heading_angle = 0, x_vel = 0, y_vel = 0, max_vel = ball_max_vel,
      x_pos = init_x_pos, y_pos = init_y_pos, friction = fr, mass = m,
      vel_bounce_coefficient = vel_bounce_coef, ball_radius = rad\<rparr>"

definition BallBasicModel_default :: "real \<Rightarrow> real \<Rightarrow> ball" where
  "BallBasicModel_default init_x_pos init_y_pos =
     BallBasicModel init_x_pos init_y_pos (1/10) (1/100) (1/10) (8/10) (1/100) 3"

text \<open>
  The body a ball or a robot collides with is duck-typed in the source: an object with
  \<^verbatim>\<open>get_position_components_wcs()\<close>, \<^verbatim>\<open>get_velocity_components_wcs()\<close> and
  \<^verbatim>\<open>radius\<close>. The record holds what these three reads return.
\<close>

record collidable =
  position_components_wcs :: "real \<times> real"
  velocity_components_wcs :: "real \<times> real"
  radius :: real

subsection \<open>Ball: free motion\<close>

text \<open>
  \<^verbatim>\<open>BallBasicModel.step\<close>. The two divisions of the source are written out: by
  \<^verbatim>\<open>self._mass\<close>, and by \<^verbatim>\<open>vel\<close> inside the branch above the acceleration
  threshold.
\<close>

definition ball_step :: "ball \<Rightarrow> py_error + ball" where
  "ball_step b =
     (let vel_sq = (x_vel b)\<^sup>2 + (y_vel b)\<^sup>2;
          vel = sqrt vel_sq
      in if mass b = 0 then Inl ZeroDivisionError
         else
           let acc = - vel * friction b / mass b;
               acceleration_threshold = 1/100
           in case (if \<bar>acc\<bar> > acceleration_threshold
                    then (if vel = 0 then Inl ZeroDivisionError
                          else Inr (acc * x_vel b / vel, acc * y_vel b / vel))
                    else Inr (0, 0)) of
                Inl e \<Rightarrow> Inl e
              | Inr (acc_x, acc_y) \<Rightarrow>
                  let dt_sq = (ball_dt b)\<^sup>2
                  in Inr (b\<lparr>x_pos := x_pos b + (x_vel b * ball_dt b + (1/2) * acc_x * dt_sq),
                            y_pos := y_pos b + (y_vel b * ball_dt b + (1/2) * acc_y * dt_sq),
                            x_vel := x_vel b + acc_x * ball_dt b,
                            y_vel := y_vel b + acc_y * ball_dt b\<rparr>))"

subsection \<open>Ball: wall rebound\<close>

text \<open>\<^verbatim>\<open>_wall_collision\<close>; the orientation is a string, as in the source.\<close>

definition wall_collision :: "ball \<Rightarrow> string \<Rightarrow> ball" where
  "wall_collision b wall_orientation =
     (let b1 = (if wall_orientation = ''vertical'' \<or> wall_orientation = ''corner''
                then b\<lparr>x_vel := x_vel b * (-1 * vel_bounce_coefficient b)\<rparr> else b);
          b2 = (if wall_orientation = ''horizontal'' \<or> wall_orientation = ''corner''
                then b1\<lparr>y_vel := y_vel b1 * (-1 * vel_bounce_coefficient b1)\<rparr> else b1)
      in b2)"

subsection \<open>Ball: elastic rebound off a round player\<close>

definition move_vel_threshold :: real where
  "move_vel_threshold = 1/1000"

text \<open>
  Lines 124--135 of \<^verbatim>\<open>_elastic_collision_with_round_player\<close>: the coefficients
  \<open>(a, b, c)\<close> of the quadratic whose roots are the intersections of the trajectory
  with the player's circle.
\<close>

definition quadratic_coefficients :: "ball \<Rightarrow> collidable \<Rightarrow> py_error + (real \<times> real \<times> real)" where
  "quadratic_coefficients b co =
     (let (player_pos_x, player_pos_y) = position_components_wcs co;
          player_radius = radius co
      in if x_vel b \<ge> move_vel_threshold
         then (if x_vel b = 0 then Inl ZeroDivisionError
               else
                 let k = y_vel b / x_vel b;
                     M = k * x_pos b - y_pos b + player_pos_y
                 in Inr (1 + k\<^sup>2,
                         -2 * (player_pos_x + M * k),
                         player_pos_x\<^sup>2 + M\<^sup>2 - player_radius\<^sup>2))
         else Inr (1,
                   -2 * player_pos_y,
                   player_pos_y\<^sup>2 + (x_pos b - player_pos_x)\<^sup>2 - player_radius\<^sup>2))"

text \<open>Line 138: the discriminant.\<close>

definition discriminant :: "real \<times> real \<times> real \<Rightarrow> real" where
  "discriminant abc = (case abc of (a, bq, c) \<Rightarrow> bq\<^sup>2 - 4 * a * c)"

text \<open>
  Lines 141--149: the two roots, mapped back to points of the plane. Called only with
  a non-negative discriminant.
\<close>

definition intersection_points ::
  "ball \<Rightarrow> real \<times> real \<times> real \<Rightarrow> py_error + ((real \<times> real) \<times> (real \<times> real))" where
  "intersection_points b abc =
     (case abc of (a, bq, c) \<Rightarrow>
        let delta_root = sqrt (discriminant abc)
        in if 2 * a = 0 then Inl ZeroDivisionError
           else
             let sol1 = (- bq + delta_root) / (2 * a);
                 sol2 = (- bq - delta_root) / (2 * a)
             in if x_vel b \<ge> move_vel_threshold
                then (if x_vel b = 0 then Inl ZeroDivisionError
                      else
                        let get_y = (\<lambda>x. y_pos b + y_vel b * (x - x_pos b) / x_vel b)
                        in Inr ((sol1, get_y sol1), (sol2, get_y sol2)))
                else Inr ((x_pos b, sol1), (x_pos b, sol2)))"

text \<open>Lines 151--153: the intersection nearer to the ball.\<close>

definition collision_point :: "ball \<Rightarrow> (real \<times> real) \<times> (real \<times> real) \<Rightarrow> real \<times> real" where
  "collision_point b pts =
     (case pts of ((x1, y1), (x2, y2)) \<Rightarrow>
        let dist_1 = (x1 - x_pos b)\<^sup>2 + (y1 - y_pos b)\<^sup>2;
            dist_2 = (x2 - x_pos b)\<^sup>2 + (y2 - y_pos b)\<^sup>2
        in if dist_1 < dist_2 then (x1, y1) else (x2, y2))"

text \<open>
  Lines 156--172: reflection of the incoming velocity over the normal through the
  collision point, rescaled to the incoming speed, plus the player's velocity.
\<close>

definition reflect_velocity :: "ball \<Rightarrow> collidable \<Rightarrow> real \<times> real \<Rightarrow> py_error + ball" where
  "reflect_velocity b co cp =
     (let (player_pos_x, player_pos_y) = position_components_wcs co;
          (player_vx, player_vy) = velocity_components_wcs co;
          (collision_x, collision_y) = cp;
          m_x = x_vel b; m_y = y_vel b;
          n_x = collision_x - player_pos_x; n_y = collision_y - player_pos_y
      in if n_x * n_x + n_y * n_y = 0 then Inl ZeroDivisionError
         else
           let sp = (m_x * n_x + m_y * n_y) / (n_x * n_x + n_y * n_y);
               r_x = m_x - 2 * sp * n_x;
               r_y = m_y - 2 * sp * n_y;
               vel' = sqrt ((x_vel b)\<^sup>2 + (y_vel b)\<^sup>2);
               ref_vel = sqrt (r_x\<^sup>2 + r_y\<^sup>2)
           in if ref_vel = 0 then Inl ZeroDivisionError
              else Inr (b\<lparr>x_vel := player_vx + r_x * vel' / ref_vel,
                        y_vel := player_vy + r_y * vel' / ref_vel\<rparr>))"

text \<open>\<^verbatim>\<open>_elastic_collision_with_round_player\<close>, the parts in the source's order.\<close>

definition elastic_collision_with_round_player :: "ball \<Rightarrow> collidable \<Rightarrow> py_error + ball" where
  "elastic_collision_with_round_player b co =
     (case quadratic_coefficients b co of
        Inl e \<Rightarrow> Inl e
      | Inr abc \<Rightarrow>
          if discriminant abc < 0 then Inr b
          else (case intersection_points b abc of
                  Inl e \<Rightarrow> Inl e
                | Inr pts \<Rightarrow> reflect_velocity b co (collision_point b pts)))"

subsection \<open>Ball: kick and receive\<close>

text \<open>
  \<^verbatim>\<open>_kick_collision\<close>. \<^verbatim>\<open>kick_vel\<close> defaults to \<^verbatim>\<open>None\<close>, on which
  \<^verbatim>\<open>min\<close> raises a TypeError before the division is reached.
\<close>

definition kick_collision :: "ball \<Rightarrow> collidable \<Rightarrow> real option \<Rightarrow> py_error + ball" where
  "kick_collision b co kick_vel =
     (let (player_pos_x, player_pos_y) = position_components_wcs co;
          dx = x_pos b - player_pos_x;
          dy = y_pos b - player_pos_y;
          diff = sqrt (dx\<^sup>2 + dy\<^sup>2)
      in case kick_vel of
           None \<Rightarrow> Inl TypeError
         | Some kv \<Rightarrow>
             let kick_vel' = min kv (max_vel b)
             in if diff = 0 then Inl ZeroDivisionError
                else Inr (b\<lparr>x_vel := kick_vel' * dx / diff,
                           y_vel := kick_vel' * dy / diff\<rparr>))"

text \<open>\<^verbatim>\<open>_receive_collision\<close>\<close>

definition receive_collision :: "ball \<Rightarrow> collidable \<Rightarrow> ball" where
  "receive_collision b co =
     (let (vx, vy) = velocity_components_wcs co in b\<lparr>x_vel := vx, y_vel := vy\<rparr>)"

text \<open>\<^verbatim>\<open>get_position\<close>\<close>

definition get_position :: "ball \<Rightarrow> real \<times> real" where
  "get_position b = (x_pos b, y_pos b)"

subsection \<open>Robot: data and coordinate frames\<close>

text \<open>
  Modelled from the spec: the enumeration \<^verbatim>\<open>CollisionTypes\<close> of
  \<^verbatim>\<open>GameEngine.collisions\<close>, which is imported by \<^verbatim>\<open>robot_model.py\<close> but is not
  among the sources. The spec lists the variants NONE, WALL_VERTICAL, WALL_HORIZONTAL,
  WALL_CORNER and PLAYER; the code names the first one \<^verbatim>\<open>CollisionTypes.NO\<close>.
\<close>

datatype CollisionTypes = COLLISION_NO | WALL_VERTICAL | WALL_HORIZONTAL | WALL_CORNER | PLAYER

text \<open>
  The attributes of \<^verbatim>\<open>RobotModel\<close>. \<^verbatim>\<open>vel_limit\<close> is a constant pair of
  infinities that no method reads and is left out.
\<close>

record robot =
  robot_dt :: real
  pointing_angle :: real
  vel :: real
  cord_system_rot :: real
  x_pos_EFCS :: real
  y_pos_EFCS :: real
  robot_radius :: real
  wheel_radius :: real
  axis_len :: real

text \<open>
  \<^verbatim>\<open>_convert_field_CS_to_EFCS\<close> and \<^verbatim>\<open>_convert_EFCS_to_field_CS\<close>; the first
  argument is the \<^verbatim>\<open>_cord_system_rot\<close> of the robot.
\<close>

definition convert_field_CS_to_EFCS :: "real \<Rightarrow> real \<Rightarrow> real \<Rightarrow> py_error + (real \<times> real)" where
  "convert_field_CS_to_EFCS rot pos_x pos_y =
     (if rot = 0 then Inr (pos_x, pos_y)
      else if rot = pi then Inr (- pos_x, - pos_y)
      else Inl ValueError)"

definition convert_EFCS_to_field_CS :: "real \<Rightarrow> real \<Rightarrow> real \<Rightarrow> py_error + (real \<times> real)" where
  "convert_EFCS_to_field_CS rot pos_x pos_y =
     (if rot = 0 then Inr (pos_x, pos_y)
      else if rot = pi then Inr (- pos_x, - pos_y)
      else Inl ValueError)"

text \<open>
  The constructor \<^verbatim>\<open>RobotModel(init_x_pos, init_y_pos, dt=0.1, robot_radius=0.1,
  wheel_radius=0.02, cord_system_rot=0, axis_len=0.05)\<close>.
\<close>

definition RobotBasicModel ::
  "real \<Rightarrow> real \<Rightarrow> real \<Rightarrow> real \<Rightarrow> real \<Rightarrow> real \<Rightarrow> real \<Rightarrow> py_error + robot" where
  "RobotBasicModel init_x_pos init_y_pos dt rr wr rot al =
     (case convert_field_CS_to_EFCS rot init_x_pos init_y_pos of
        Inl e \<Rightarrow> Inl e
      | Inr (x_init, y_init) \<Rightarrow>
          Inr \<lparr>robot_dt = dt, pointing_angle = 0, vel = 0, cord_system_rot = rot,
               x_pos_EFCS = x_init, y_pos_EFCS = y_init, robot_radius = rr,
               wheel_radius = wr, axis_len = al\<rparr>)"

definition RobotBasicModel_default :: "real \<Rightarrow> real \<Rightarrow> py_error + robot" where
  "RobotBasicModel_default init_x_pos init_y_pos =
     RobotBasicModel init_x_pos init_y_pos (1/10) (1/10) (2/100) 0 (5/100)"

definition get_velocity_components_wcs :: "robot \<Rightarrow> py_error + (real \<times> real)" where
  "get_velocity_components_wcs rob =
     convert_EFCS_to_field_CS (cord_system_rot rob)
       (vel rob * cos (pointing_angle rob)) (vel rob * sin (pointing_angle rob))"

definition get_position_components_wcs :: "robot \<Rightarrow> py_error + (real \<times> real)" where
  "get_position_components_wcs rob =
     convert_EFCS_to_field_CS (cord_system_rot rob) (x_pos_EFCS rob) (y_pos_EFCS rob)"

subsection \<open>Robot: differential-drive step\<close>

text \<open>
  \<^verbatim>\<open>clip_angle = lambda a: a - 2*np.pi*np.sign(a) if abs(a) > np.pi else a\<close>;
  \<^verbatim>\<open>np.sign\<close> is \<open>sgn\<close>.
\<close>

definition clip_angle :: "real \<Rightarrow> real" where
  "clip_angle a = (if \<bar>a\<bar> > pi then a - 2 * pi * sgn a else a)"

text \<open>
  \<^verbatim>\<open>RobotBasicModel.step\<close>. The method updates the robot and returns
  \<^verbatim>\<open>extra_action\<close>; the model returns both. The one division is by
  \<^verbatim>\<open>self._axis_len\<close>.
\<close>

definition robot_step :: "robot \<Rightarrow> real \<Rightarrow> real \<Rightarrow> BallActions \<Rightarrow> py_error + (robot \<times> BallActions)" where
  "robot_step rob l_motor_speed r_motor_speed extra_action =
     (let v = (wheel_radius rob / 2) * (l_motor_speed + r_motor_speed);
          xn = x_pos_EFCS rob + (wheel_radius rob * robot_dt rob / 2)
                 * (l_motor_speed + r_motor_speed) * cos (pointing_angle rob);
          yn = y_pos_EFCS rob + (wheel_radius rob * robot_dt rob / 2)
                 * (l_motor_speed + r_motor_speed) * sin (pointing_angle rob)
      in if axis_len rob = 0 then Inl ZeroDivisionError
         else
           let qn = pointing_angle rob + (wheel_radius rob * robot_dt rob / axis_len rob)
                      * (l_motor_speed - r_motor_speed)
           in Inr (rob\<lparr>vel := v, x_pos_EFCS := xn, y_pos_EFCS := yn,
                       pointing_angle := clip_angle qn\<rparr>, extra_action))"

text \<open>
  The robot after a sequence of \<^verbatim>\<open>step\<close> calls, one per pair of wheel speeds:
  the list of the states after each call, in order.
\<close>

fun robot_steps :: "robot \<Rightarrow> (real \<times> real) list \<Rightarrow> py_error + robot list" where
  "robot_steps rob [] = Inr []"
| "robot_steps rob ((l, r) # ws) =
     (case robot_step rob l r NO of
        Inl e \<Rightarrow> Inl e
      | Inr (rob', _) \<Rightarrow>
          (case robot_steps rob' ws of
             Inl e \<Rightarrow> Inl e
           | Inr rs \<Rightarrow> Inr (rob' # rs)))"

subsection \<open>Robot: motion restricted by a collision\<close>

text \<open>Python's \<^verbatim>\<open>%\<close> on floats with a positive divisor: the result is in \<open>[0, m)\<close>.\<close>

definition py_fmod :: "real \<Rightarrow> real \<Rightarrow> real" where
  "py_fmod x m = x - m * of_int \<lfloor>x / m\<rfloor>"

text \<open>\<^verbatim>\<open>get_diff_angle = lambda a, b: abs((a - b + np.pi) % (2 * np.pi) - np.pi)\<close>\<close>

definition get_diff_angle :: "real \<Rightarrow> real \<Rightarrow> real" where
  "get_diff_angle a b = \<bar>py_fmod (a - b + pi) (2 * pi) - pi\<bar>"

text \<open>\<^verbatim>\<open>step_with_restrictions\<close>\<close>

definition step_with_restrictions :: "robot \<Rightarrow> real \<Rightarrow> real \<Rightarrow> real \<Rightarrow> real \<Rightarrow> py_error + robot" where
  "step_with_restrictions rob angle_of_blockage_relative_to_ego restricted_angle
       l_motor_speed r_motor_speed =
     map_sum id fst
     (let vel_simplified = (l_motor_speed + r_motor_speed) / 2
      in if vel_simplified = 0 then robot_step rob l_motor_speed r_motor_speed NO
         else if vel_simplified > 0 then
           (let angle_diff = get_diff_angle angle_of_blockage_relative_to_ego (pointing_angle rob)
            in if angle_diff > restricted_angle
               then robot_step rob l_motor_speed r_motor_speed NO
               else robot_step rob (l_motor_speed - vel_simplified)
                                   (r_motor_speed - vel_simplified) NO)
         else
           (let move_pointing_ang = clip_angle (pointing_angle rob + pi);
                angle_diff = get_diff_angle angle_of_blockage_relative_to_ego move_pointing_ang
            in if angle_diff > restricted_angle
               then robot_step rob l_motor_speed r_motor_speed NO
               else robot_step rob (l_motor_speed - vel_simplified)
                                   (r_motor_speed - vel_simplified) NO))"

text \<open>\<^verbatim>\<open>np.round\<close>: to the nearest integer, an exact half to the even neighbour.\<close>

definition np_round :: "real \<Rightarrow> real" where
  "np_round x =
     (let f = \<lfloor>x\<rfloor>; d = x - of_int f
      in if d < 1/2 then of_int f
         else if d > 1/2 then of_int (f + 1)
         else if even f then of_int f else of_int (f + 1))"

text \<open>\<^verbatim>\<open>np.arctan2(y, x)\<close> on real arguments.\<close>

definition arctan2 :: "real \<Rightarrow> real \<Rightarrow> real" where
  "arctan2 y x =
     (if x > 0 then arctan (y / x)
      else if x < 0 \<and> y \<ge> 0 then arctan (y / x) + pi
      else if x < 0 then arctan (y / x) - pi
      else if y > 0 then pi / 2
      else if y < 0 then - (pi / 2)
      else 0)"

text \<open>
  Lines 124--149 of \<^verbatim>\<open>collision_step\<close>: the blocker angle, the restricted angle and
  the robot with its out-of-bounds coordinates snapped, as they are when
  \<^verbatim>\<open>step_with_restrictions\<close> is called.
\<close>

definition collision_blocker ::
  "robot \<Rightarrow> CollisionTypes \<Rightarrow> CollisionTypes \<Rightarrow> collidable list \<Rightarrow> py_error + (robot \<times> real \<times> real)" where
  "collision_blocker rob wall_collision' players_collision collision_list =
     (if players_collision = PLAYER then
        (case collision_list of
           [] \<Rightarrow> Inl IndexError
         | collision_object # _ \<Rightarrow>
             let (other_pos_x, other_pos_y) = position_components_wcs collision_object
             in case get_position_components_wcs rob of
                  Inl e \<Rightarrow> Inl e
                | Inr (self_pos_x, self_pos_y) \<Rightarrow>
                    let diff_x = self_pos_x - other_pos_x;
                        diff_y = self_pos_y - other_pos_y
                    in Inr (rob, arctan2 diff_y diff_x, pi / 2))
      else if wall_collision' \<noteq> COLLISION_NO then
        (if wall_collision' = WALL_VERTICAL then
           Inr (rob\<lparr>x_pos_EFCS := np_round (x_pos_EFCS rob)\<rparr>,
                (if x_pos_EFCS rob > 0 then 0 else - pi), pi / 2)
         else if wall_collision' = WALL_HORIZONTAL then
           Inr (rob\<lparr>y_pos_EFCS := np_round (y_pos_EFCS rob)\<rparr>,
                (if y_pos_EFCS rob > 0 then pi / 2 else - (pi / 2)), pi / 2)
         else
           Inr (rob\<lparr>x_pos_EFCS := np_round (x_pos_EFCS rob),
                     y_pos_EFCS := np_round (y_pos_EFCS rob)\<rparr>,
                (if x_pos_EFCS rob > 0 \<and> y_pos_EFCS rob > 0 then pi / 4
                 else if x_pos_EFCS rob > 0 \<and> y_pos_EFCS rob < 0 then - (pi / 4)
                 else if x_pos_EFCS rob < 0 \<and> y_pos_EFCS rob > 0 then 3 * pi / 4
                 else - (3 * pi / 4)),
                3 * pi / 4))
      else Inl ValueError)"

text \<open>\<^verbatim>\<open>collision_step\<close>\<close>

definition collision_step ::
  "robot \<Rightarrow> CollisionTypes \<Rightarrow> CollisionTypes \<Rightarrow> collidable list \<Rightarrow> real \<Rightarrow> real \<Rightarrow> BallActions
     \<Rightarrow> py_error + (robot \<times> BallActions)" where
  "collision_step rob wall_collision' players_collision collision_list
       l_motor_speed r_motor_speed extra_action =
     (case collision_blocker rob wall_collision' players_collision collision_list of
        Inl e \<Rightarrow> Inl e
      | Inr (rob', blocker_angle, restricted_angle) \<Rightarrow>
          (case step_with_restrictions rob' blocker_angle restricted_angle
                  l_motor_speed r_motor_speed of
             Inl e \<Rightarrow> Inl e
           | Inr rob'' \<Rightarrow> Inr (rob'', extra_action)))"

subsection \<open>Derived notions and fixtures\<close>

text \<open>The speed of the ball, \<^verbatim>\<open>vel\<close> in \<^verbatim>\<open>step\<close> and \<^verbatim>\<open>vel_\<close> in the elastic rebound.\<close>

definition speed :: "ball \<Rightarrow> real" where
  "speed b = sqrt ((x_vel b)\<^sup>2 + (y_vel b)\<^sup>2)"

text \<open>
  The fixtures of \<^verbatim>\<open>BallTests\<close>: a default ball at the origin with a given velocity,
  and the \<^verbatim>\<open>DummpPlayer\<close> with position, velocity and radius.
\<close>

definition test_ball :: "real \<Rightarrow> real \<Rightarrow> ball" where
  "test_ball vx vy = (BallBasicModel_default 0 0)\<lparr>x_vel := vx, y_vel := vy\<rparr>"

definition DummpPlayer :: "real \<Rightarrow> real \<Rightarrow> real \<Rightarrow> real \<Rightarrow> real \<Rightarrow> collidable" where
  "DummpPlayer x y vx vy r =
     \<lparr>position_components_wcs = (x, y), velocity_components_wcs = (vx, vy), radius = r\<rparr>"

text \<open>The robot that \<^verbatim>\<open>RobotBasicModel(0, 0)\<close> constructs.\<close>

definition test_robot :: robot where
  "test_robot = \<lparr>robot_dt = 1/10, pointing_angle = 0, vel = 0, cord_system_rot = 0,
                  x_pos_EFCS = 0, y_pos_EFCS = 0, robot_radius = 1/10,
                  wheel_radius = 2/100, axis_len = 5/100\<rparr>"

text \<open>
  The specification's wording of the choice of parameterisation in the elastic rebound,
  for comparison with \<open>quadratic_coefficients\<close>: the line is parameterised in \<open>x\<close>
  whenever \<open>\<bar>vx\<bar> \<ge> 0.001\<close>.
\<close>

definition spec_quadratic_coefficients :: "ball \<Rightarrow> collidable \<Rightarrow> real \<times> real \<times> real" where
  "spec_quadratic_coefficients b co =
     (let (player_pos_x, player_pos_y) = position_components_wcs co;
          player_radius = radius co
      in if \<bar>x_vel b\<bar> \<ge> move_vel_threshold
         then
           let k = y_vel b / x_vel b;
               M = k * x_pos b - y_pos b + player_pos_y
           in (1 + k\<^sup>2,
               -2 * (player_pos_x + M * k),
               player_pos_x\<^sup>2 + M\<^sup>2 - player_radius\<^sup>2)
         else (1,
               -2 * player_pos_y,
               player_pos_y\<^sup>2 + (x_pos b - player_pos_x)\<^sup>2 - player_radius\<^sup>2))"

text \<open>
  The specification's wording of the snapping in \<^verbatim>\<open>collision_step\<close>: the nearest
  integer, an exact half going toward the field edge. The field is centred on the origin,
  so toward the edge is away from zero.
\<close>

definition spec_round_toward_edge :: "real \<Rightarrow> real" where
  "spec_round_toward_edge x = sgn x * of_int \<lfloor>\<bar>x\<bar> + 1/2\<rfloor>"

subsection \<open>Robot: the step in double precision\<close>

text \<open>
  Where a property depends on rounding, the real-number model cannot decide it. The
  robot's step and its restricted variant are therefore modelled a second time, with the
  result of every arithmetic operation rounded to a double.
\<close>











lemmas fixture_defs =
  test_ball_def DummpPlayer_def BallBasicModel_default_def BallBasicModel_def

section \<open>Ball: properties\<close>

subsection \<open>Free motion\<close>

lemma sqrt_scale: "0 \<le> k \<Longrightarrow> sqrt ((k * x)\<^sup>2 + (k * y)\<^sup>2) = k * sqrt (x\<^sup>2 + y\<^sup>2)"
proof -
  assume k: "0 \<le> k"
  have "(k * x)\<^sup>2 + (k * y)\<^sup>2 = k\<^sup>2 * (x\<^sup>2 + y\<^sup>2)"
    by (simp add: power_mult_distrib distrib_left)
  then show ?thesis using k by (simp add: real_sqrt_mult)
qed

text \<open>Above the acceleration threshold both velocity components are scaled by
  \<open>1 - friction \<cdot> dt / mass\<close>.\<close>

lemma ball_step_above:
  assumes m: "mass b \<noteq> 0" and a: "\<bar>- speed b * friction b / mass b\<bar> > 1/100"
  shows "ball_step b =
     Inr (b\<lparr>x_pos := x_pos b + (x_vel b * ball_dt b
                 + (1/2) * (- speed b * friction b / mass b * x_vel b / speed b) * (ball_dt b)\<^sup>2),
            y_pos := y_pos b + (y_vel b * ball_dt b
                 + (1/2) * (- speed b * friction b / mass b * y_vel b / speed b) * (ball_dt b)\<^sup>2),
            x_vel := (1 - friction b * ball_dt b / mass b) * x_vel b,
            y_vel := (1 - friction b * ball_dt b / mass b) * y_vel b\<rparr>)"
proof -
  have s: "speed b \<noteq> 0" using a by auto
  have c: "w + - speed b * friction b / mass b * w / speed b * ball_dt b
             = (1 - friction b * ball_dt b / mass b) * w" for w
    using s m by (simp add: field_simps)
  have "ball_step b =
     Inr (b\<lparr>x_pos := x_pos b + (x_vel b * ball_dt b
                 + (1/2) * (- speed b * friction b / mass b * x_vel b / speed b) * (ball_dt b)\<^sup>2),
            y_pos := y_pos b + (y_vel b * ball_dt b
                 + (1/2) * (- speed b * friction b / mass b * y_vel b / speed b) * (ball_dt b)\<^sup>2),
            x_vel := x_vel b + - speed b * friction b / mass b * x_vel b / speed b * ball_dt b,
            y_vel := y_vel b + - speed b * friction b / mass b * y_vel b / speed b * ball_dt b\<rparr>)"
    using m a s unfolding ball_step_def Let_def speed_def by simp
  then show ?thesis unfolding c .
qed

lemma ball_step_below:
  assumes m: "mass b \<noteq> 0" and a: "\<not> \<bar>- speed b * friction b / mass b\<bar> > 1/100"
  shows "ball_step b =
     Inr (b\<lparr>x_pos := x_pos b + x_vel b * ball_dt b,
            y_pos := y_pos b + y_vel b * ball_dt b\<rparr>)"
  using m a unfolding ball_step_def Let_def speed_def by simp

lemma ball_step_zero_mass: "mass b = 0 \<Longrightarrow> ball_step b = Inl ZeroDivisionError"
  by (simp add: ball_step_def Let_def)

lemma ball_step_total: "mass b \<noteq> 0 \<Longrightarrow> \<exists>b'. ball_step b = Inr b'"
  using ball_step_above [of b] ball_step_below [of b] by (cases "\<bar>- speed b * friction b / mass b\<bar> > 1/100") simp_all

text \<open>
  C7. With the default \<open>dt = 0.1\<close>, \<open>friction = 0.01\<close> and \<open>mass = 0.1\<close>, a step of a
  moving ball succeeds, does not increase the speed, and keeps the direction: above the
  acceleration cutoff both velocity components are multiplied by \<open>0.99\<close>, at or below it
  the velocity is unchanged. The parameters and the fact that the ball moves are kept, so
  the statement applies to every step of a run.
\<close>

theorem ball_step_friction:
  assumes "ball_dt b = 1/10" "friction b = 1/100" "mass b = 1/10"
    and "(x_vel b, y_vel b) \<noteq> (0, 0)"
  shows "\<exists>b'. ball_step b = Inr b' \<and> speed b' \<le> speed b
           \<and> (if \<bar>- speed b * friction b / mass b\<bar> > 1/100
               then x_vel b' = (99/100) * x_vel b \<and> y_vel b' = (99/100) * y_vel b
               else x_vel b' = x_vel b \<and> y_vel b' = y_vel b)
           \<and> ball_dt b' = 1/10 \<and> friction b' = 1/100 \<and> mass b' = 1/10
           \<and> (x_vel b', y_vel b') \<noteq> (0, 0)"
proof (cases "\<bar>- speed b * friction b / mass b\<bar> > 1/100")
  case True
  have m: "mass b \<noteq> 0" unfolding assms(3) by simp
  have k: "1 - friction b * ball_dt b / mass b = 99/100" unfolding assms(1-3) by simp
  define b' where "b' = b\<lparr>x_pos := x_pos b + (x_vel b * ball_dt b
                 + (1/2) * (- speed b * friction b / mass b * x_vel b / speed b) * (ball_dt b)\<^sup>2),
            y_pos := y_pos b + (y_vel b * ball_dt b
                 + (1/2) * (- speed b * friction b / mass b * y_vel b / speed b) * (ball_dt b)\<^sup>2),
            x_vel := (99/100) * x_vel b,
            y_vel := (99/100) * y_vel b\<rparr>"
  have st: "ball_step b = Inr b'"
    using ball_step_above [OF m True] unfolding k b'_def .
  have v: "x_vel b' = (99/100) * x_vel b" "y_vel b' = (99/100) * y_vel b"
    by (simp_all add: b'_def)
  have p: "ball_dt b' = ball_dt b" "friction b' = friction b" "mass b' = mass b"
    by (simp_all add: b'_def)
  have "speed b' = (99/100) * speed b"
    unfolding speed_def v using sqrt_scale [of "99/100" "x_vel b" "y_vel b"] by simp
  moreover have "0 \<le> speed b" by (simp add: speed_def)
  ultimately have le: "speed b' \<le> speed b" by simp
  have nz: "(x_vel b', y_vel b') \<noteq> (0, 0)" using assms(4) unfolding v by simp
  show ?thesis
    using st le v nz True p assms(1-3) by (intro exI [of _ b']) (simp only: if_True simp_thms)
next
  case False
  have m: "mass b \<noteq> 0" unfolding assms(3) by simp
  define b' where "b' = b\<lparr>x_pos := x_pos b + x_vel b * ball_dt b,
            y_pos := y_pos b + y_vel b * ball_dt b\<rparr>"
  have st: "ball_step b = Inr b'"
    using ball_step_below [OF m False] unfolding b'_def .
  have v: "x_vel b' = x_vel b" "y_vel b' = y_vel b"
    by (simp_all add: b'_def)
  have p: "ball_dt b' = ball_dt b" "friction b' = friction b" "mass b' = mass b"
    by (simp_all add: b'_def)
  have le: "speed b' \<le> speed b" unfolding speed_def v by simp
  have nz: "(x_vel b', y_vel b') \<noteq> (0, 0)" using assms(4) unfolding v by simp
  show ?thesis
    using st le v nz False p assms(1-3) by (intro exI [of _ b']) (simp only: if_False simp_thms)
qed

text \<open>
  Witness for C7: the default ball with velocity \<open>(1, 0)\<close> is above the cutoff and leaves
  the step with velocity \<open>(0.99, 0)\<close>.
\<close>

theorem ball_step_friction_witness:
  "ball_dt (test_ball 1 0) = 1/10 \<and> friction (test_ball 1 0) = 1/100
   \<and> mass (test_ball 1 0) = 1/10
   \<and> (x_vel (test_ball 1 0), y_vel (test_ball 1 0)) \<noteq> (0, 0)
   \<and> (\<exists>b'. ball_step (test_ball 1 0) = Inr b' \<and> speed b' \<le> speed (test_ball 1 0)
          \<and> x_vel b' = 99/100 \<and> y_vel b' = 0)"
  using ball_step_friction [of "test_ball 1 0"]
  by (auto simp: fixture_defs speed_def)

subsection \<open>Wall rebound\<close>

text \<open>
  C5. The wall rebound multiplies \<open>vx\<close> by \<open>-bounceCoefficient\<close> exactly for the
  orientations vertical and corner, \<open>vy\<close> exactly for horizontal and corner, and leaves the
  other component as it is.
\<close>

theorem wall_collision_velocity:
  "x_vel (wall_collision b w) =
     (if w = ''vertical'' \<or> w = ''corner''
      then x_vel b * (- vel_bounce_coefficient b) else x_vel b)
   \<and> y_vel (wall_collision b w) =
     (if w = ''horizontal'' \<or> w = ''corner''
      then y_vel b * (- vel_bounce_coefficient b) else y_vel b)"
  by (simp add: wall_collision_def Let_def)

text \<open>
  Witness for C5, the example of the claim: velocity \<open>(1, 2)\<close> and bounce coefficient
  \<open>0.8\<close> give \<open>(-0.8, 2)\<close>, \<open>(1, -1.6)\<close> and \<open>(-0.8, -1.6)\<close>.
\<close>

theorem wall_collision_velocity_witness:
  "vel_bounce_coefficient (test_ball 1 2) = 8/10
   \<and> (x_vel (wall_collision (test_ball 1 2) ''vertical''),
       y_vel (wall_collision (test_ball 1 2) ''vertical'')) = (-8/10, 2)
   \<and> (x_vel (wall_collision (test_ball 1 2) ''horizontal''),
       y_vel (wall_collision (test_ball 1 2) ''horizontal'')) = (1, -16/10)
   \<and> (x_vel (wall_collision (test_ball 1 2) ''corner''),
       y_vel (wall_collision (test_ball 1 2) ''corner'')) = (-8/10, -16/10)"
  using wall_collision_velocity [of "test_ball 1 2" "''vertical''"]
    wall_collision_velocity [of "test_ball 1 2" "''horizontal''"]
    wall_collision_velocity [of "test_ball 1 2" "''corner''"]
  by (simp add: fixture_defs)

subsection \<open>Elastic rebound: the intersection with the player's circle\<close>

text \<open>
  The divisions by \<open>vx\<close> and by \<open>2a\<close> never meet a zero divisor: the coefficients and
  the two intersection points are always defined.
\<close>

lemma quadratic_coefficients_Inr:
  "\<exists>a bq c. quadratic_coefficients b co = Inr (a, bq, c) \<and> 0 < a"
proof (cases "x_vel b \<ge> move_vel_threshold")
  case True
  then have vx: "x_vel b \<noteq> 0" by (auto simp: move_vel_threshold_def)
  have "0 < 1 + (y_vel b / x_vel b)\<^sup>2" by (simp add: add_pos_nonneg)
  then show ?thesis using True vx
    by (simp add: quadratic_coefficients_def Let_def split: prod.splits)
next
  case False
  then show ?thesis
    by (simp add: quadratic_coefficients_def Let_def split: prod.splits)
qed

lemma intersection_points_Inr:
  assumes "quadratic_coefficients b co = Inr abc"
  shows "\<exists>p1 p2. intersection_points b abc = Inr (p1, p2)"
proof -
  obtain a bq c where abc: "quadratic_coefficients b co = Inr (a, bq, c)" "0 < a"
    using quadratic_coefficients_Inr by blast
  then have e: "abc = (a, bq, c)" using assms by simp
  show ?thesis
  proof (cases "x_vel b \<ge> move_vel_threshold")
    case True
    then have vx: "x_vel b \<noteq> 0" by (auto simp: move_vel_threshold_def)
    then show ?thesis using True abc(2) by (simp add: intersection_points_def e Let_def)
  next
    case False
    then show ?thesis using abc(2) by (simp add: intersection_points_def e Let_def)
  qed
qed

text \<open>Where the code and the specification's wording choose the same parameterisation.\<close>

lemma quadratic_coefficients_agree:
  assumes "x_vel b \<ge> move_vel_threshold \<or> \<bar>x_vel b\<bar> < move_vel_threshold"
  shows "quadratic_coefficients b co = Inr (spec_quadratic_coefficients b co)"
  using assms
  by (auto simp: quadratic_coefficients_def spec_quadratic_coefficients_def Let_def
      move_vel_threshold_def split: prod.splits)

text \<open>
  C1. The code tests \<^verbatim>\<open>self._x_vel >= move_vel_threshold\<close> without the absolute
  value. A ball at the origin moving with velocity \<open>(-1, 0)\<close> towards a player of radius
  \<open>1\<close> at \<open>(-2, 0)\<close> has \<open>\<bar>vx\<bar> = 1 \<ge> 0.001\<close>, yet the code takes the near-vertical
  branch: its coefficients are \<open>(1, 0, 3)\<close> with discriminant \<open>-12\<close> and the rebound is a
  no-op, where the parameterisation in \<open>x\<close> gives \<open>(1, 4, 3)\<close> with discriminant \<open>4\<close>,
  a contact at \<open>(-1, 0)\<close>.
\<close>

theorem elastic_collision_negative_vx_near_vertical:
  "\<bar>x_vel (test_ball (-1) 0)\<bar> \<ge> move_vel_threshold
   \<and> quadratic_coefficients (test_ball (-1) 0) (DummpPlayer (-2) 0 0 0 1) = Inr (1, 0, 3)
   \<and> discriminant (1, 0, 3) = -12
   \<and> spec_quadratic_coefficients (test_ball (-1) 0) (DummpPlayer (-2) 0 0 0 1) = (1, 4, 3)
   \<and> discriminant (1, 4, 3) = 4
   \<and> elastic_collision_with_round_player (test_ball (-1) 0) (DummpPlayer (-2) 0 0 0 1)
       = Inr (test_ball (-1) 0)"
  by (simp add: fixture_defs elastic_collision_with_round_player_def
      quadratic_coefficients_def spec_quadratic_coefficients_def move_vel_threshold_def
      discriminant_def Let_def)

text \<open>
  Where code and specification choose the same parameterisation, a trajectory that
  misses the circle leaves the ball as it was.
\<close>

lemma elastic_collision_noop_where_agreeing:
  assumes "x_vel b \<ge> move_vel_threshold \<or> \<bar>x_vel b\<bar> < move_vel_threshold"
    and "discriminant (spec_quadratic_coefficients b co) < 0"
  shows "elastic_collision_with_round_player b co = Inr b"
  using assms quadratic_coefficients_agree [OF assms(1), of co]
  by (simp add: elastic_collision_with_round_player_def)

lemma sqrt_64: "sqrt 64 = 8"
  using real_sqrt_abs [of 8] by simp

text \<open>
  C8. A ball at the origin with velocity \<open>(-1, 0)\<close> travels along the line \<open>y = 0\<close>,
  which passes the player of radius \<open>5\<close> at \<open>(3, 6)\<close> at distance \<open>6\<close>: the
  intersection discriminant is \<open>-44\<close>. The code, taking the near-vertical branch for the
  negative \<open>vx\<close>, intersects the line \<open>x = 0\<close> instead, finds the discriminant \<open>64\<close>
  and the contact \<open>(0, 2)\<close>, and sets the velocity to \<open>(-0.28, 0.96)\<close>.
\<close>

theorem elastic_collision_rebounds_on_miss:
  "\<bar>x_vel (test_ball (-1) 0)\<bar> \<ge> move_vel_threshold
   \<and> spec_quadratic_coefficients (test_ball (-1) 0) (DummpPlayer 3 6 0 0 5) = (1, -6, 20)
   \<and> discriminant (1, -6, 20) = -44
   \<and> quadratic_coefficients (test_ball (-1) 0) (DummpPlayer 3 6 0 0 5) = Inr (1, -12, 20)
   \<and> discriminant (1, -12, 20) = 64
   \<and> elastic_collision_with_round_player (test_ball (-1) 0) (DummpPlayer 3 6 0 0 5)
       = Inr (test_ball (-7/25) (24/25))"
  by (simp add: fixture_defs elastic_collision_with_round_player_def
      quadratic_coefficients_def spec_quadratic_coefficients_def move_vel_threshold_def
      discriminant_def intersection_points_def collision_point_def reflect_velocity_def
      Let_def sqrt_64 power2_eq_square)

subsection \<open>Kick\<close>

lemma kick_zero_division:
  "kick_collision b co (Some kv) = Inl ZeroDivisionError
     \<longleftrightarrow> position_components_wcs co = (x_pos b, y_pos b)"
  by (auto simp: kick_collision_def Let_def sum_power2_eq_zero_iff split: prod.splits)

lemma unit_vector:
  fixes dx dy :: real
  assumes "dx \<noteq> 0 \<or> dy \<noteq> 0"
  shows "(dx / sqrt (dx\<^sup>2 + dy\<^sup>2))\<^sup>2 + (dy / sqrt (dx\<^sup>2 + dy\<^sup>2))\<^sup>2 = 1"
proof -
  have p: "0 < dx\<^sup>2 + dy\<^sup>2" using assms by (simp add: sum_power2_gt_zero_iff)
  have s2: "(sqrt (dx\<^sup>2 + dy\<^sup>2))\<^sup>2 = dx\<^sup>2 + dy\<^sup>2" by simp
  have "(dx / sqrt (dx\<^sup>2 + dy\<^sup>2))\<^sup>2 + (dy / sqrt (dx\<^sup>2 + dy\<^sup>2))\<^sup>2
          = (dx\<^sup>2 + dy\<^sup>2) / (sqrt (dx\<^sup>2 + dy\<^sup>2))\<^sup>2"
    by (simp only: power_divide add_divide_distrib)
  also have "\<dots> = 1" unfolding s2 using assms by auto
  finally show ?thesis .
qed

text \<open>
  C6. When the other body is not at the ball's position, the kick succeeds and sets the
  velocity to \<open>min requested maxVelocity\<close> times the unit vector from the body to the
  ball, whatever the velocity \<open>(vx0, vy0)\<close> was before.
\<close>

theorem kick_sets_velocity:
  assumes "position_components_wcs co \<noteq> (x_pos b, y_pos b)"
  shows "\<exists>ux uy. ux = (x_pos b - fst (position_components_wcs co))
                        / sqrt ((x_pos b - fst (position_components_wcs co))\<^sup>2
                                + (y_pos b - snd (position_components_wcs co))\<^sup>2)
              \<and> uy = (y_pos b - snd (position_components_wcs co))
                        / sqrt ((x_pos b - fst (position_components_wcs co))\<^sup>2
                                + (y_pos b - snd (position_components_wcs co))\<^sup>2)
              \<and> ux\<^sup>2 + uy\<^sup>2 = 1
              \<and> kick_collision (b\<lparr>x_vel := vx0, y_vel := vy0\<rparr>) co (Some requested)
                  = Inr (b\<lparr>x_vel := min requested (max_vel b) * ux,
                           y_vel := min requested (max_vel b) * uy\<rparr>)"
proof -
  obtain px py where co: "position_components_wcs co = (px, py)" by (cases "position_components_wcs co")
  have d: "x_pos b - px \<noteq> 0 \<or> y_pos b - py \<noteq> 0" using assms co by auto
  then have nz: "sqrt ((x_pos b - px)\<^sup>2 + (y_pos b - py)\<^sup>2) \<noteq> 0"
    by (simp add: sum_power2_eq_zero_iff)
  show ?thesis
    using nz unit_vector [OF d] by (simp add: co kick_collision_def Let_def)
qed

text \<open>
  Witness for C6, the example of the claim: player at \<open>(-1, 0)\<close>, ball at the origin,
  maximum velocity \<open>3\<close>, requested speed \<open>5\<close>; the velocity becomes \<open>(3, 0)\<close>.
\<close>

theorem kick_sets_velocity_witness:
  "position_components_wcs (DummpPlayer (-1) 0 0 0 (1/10))
     \<noteq> (x_pos (test_ball 0 0), y_pos (test_ball 0 0))
   \<and> max_vel (test_ball 0 0) = 3
   \<and> kick_collision (test_ball 7 (-4)) (DummpPlayer (-1) 0 0 0 (1/10)) (Some 5)
        = Inr (test_ball 3 0)"
  using kick_sets_velocity [where co = "DummpPlayer (-1) 0 0 0 (1/10)" and b = "test_ball 0 0"
      and ?vx0.0 = 7 and ?vy0.0 = "-4" and requested = 5]
  by (simp add: fixture_defs)

subsection \<open>Division by zero in the ball kernel\<close>

text \<open>
  Counterexample for C2: a kick by a body at the ball's own position divides by the
  centre distance \<open>0\<close>, and the elastic rebound of a ball at rest inside the player's
  circle divides by the magnitude \<open>0\<close> of the reflected vector. On Python numbers
  both raise \<^verbatim>\<open>ZeroDivisionError\<close>.
\<close>

theorem unguarded_division_counterexample:
  "kick_collision (test_ball 0 0) (DummpPlayer 0 0 0 0 (1/10)) (Some 5) = Inl ZeroDivisionError
   \<and> elastic_collision_with_round_player (test_ball 0 0) (DummpPlayer 0 0 0 0 (1/10))
        = Inl ZeroDivisionError"
  by (simp add: fixture_defs kick_collision_def elastic_collision_with_round_player_def
      quadratic_coefficients_def move_vel_threshold_def discriminant_def
      intersection_points_def collision_point_def reflect_velocity_def Let_def)

lemma elastic_collision_at_rest:
  "elastic_collision_with_round_player (test_ball 0 0) (DummpPlayer 0 0 0 0 (1/10))
        = Inl ZeroDivisionError"
  by (simp add: fixture_defs elastic_collision_with_round_player_def
      quadratic_coefficients_def move_vel_threshold_def discriminant_def
      intersection_points_def collision_point_def reflect_velocity_def Let_def)

text \<open>
  C2, amended. \<open>Inl ZeroDivisionError\<close> marks a division whose divisor is zero. The
  divisions behind a threshold never meet one: \<open>ball_step\<close> divides by zero only when the
  mass is zero, never by the speed, and the elastic rebound divides by zero neither in
  its coefficients nor in its intersection points, where it divides by \<open>vx\<close> and by
  \<open>2a\<close>. The other divisions are
  not guarded: whenever the other body is at the ball's position the kick divides by the
  centre distance zero, and there are inputs on which the elastic rebound divides by zero.
\<close>

theorem division_by_zero_conditions:
  "(mass b \<noteq> 0 \<longrightarrow> ball_step b \<noteq> Inl ZeroDivisionError)
   \<and> quadratic_coefficients b co \<noteq> Inl ZeroDivisionError
   \<and> (\<forall>abc. quadratic_coefficients b co = Inr abc
          \<longrightarrow> intersection_points b abc \<noteq> Inl ZeroDivisionError)
   \<and> (position_components_wcs co = (x_pos b, y_pos b)
        \<longrightarrow> kick_collision b co (Some kv) = Inl ZeroDivisionError)
   \<and> (\<exists>b0 co0. elastic_collision_with_round_player b0 co0 = Inl ZeroDivisionError)"
proof -
  have step: "mass b \<noteq> 0 \<longrightarrow> ball_step b \<noteq> Inl ZeroDivisionError"
    using ball_step_total [of b] by auto
  have q: "quadratic_coefficients b co \<noteq> Inl ZeroDivisionError"
    using quadratic_coefficients_Inr [of b co] by auto
  have i: "\<forall>abc. quadratic_coefficients b co = Inr abc
          \<longrightarrow> intersection_points b abc \<noteq> Inl ZeroDivisionError"
    using intersection_points_Inr [of b co] by fastforce
  have kick: "position_components_wcs co = (x_pos b, y_pos b)
        \<longrightarrow> kick_collision b co (Some kv) = Inl ZeroDivisionError"
    using kick_zero_division [of b co kv] by blast
  show ?thesis using step q i kick elastic_collision_at_rest by blast
qed

text \<open>
  Witness for C2: the default ball, moving with velocity \<open>(1, 0)\<close>, has a non-zero mass
  and its step does not divide by zero; with a body of radius \<open>1\<close> at the origin, the
  position of the ball, the coefficients are \<open>(1, 0, -1)\<close>, the intersection points
  are defined, and the kick divides by zero.
\<close>

theorem division_by_zero_conditions_witness:
  "mass (test_ball 1 0) \<noteq> 0
   \<and> ball_step (test_ball 1 0) \<noteq> Inl ZeroDivisionError
   \<and> position_components_wcs (DummpPlayer 0 0 0 0 1) = (x_pos (test_ball 1 0), y_pos (test_ball 1 0))
   \<and> kick_collision (test_ball 1 0) (DummpPlayer 0 0 0 0 1) (Some 5) = Inl ZeroDivisionError
   \<and> quadratic_coefficients (test_ball 1 0) (DummpPlayer 0 0 0 0 1) = Inr (1, 0, -1)
   \<and> intersection_points (test_ball 1 0) (1, 0, -1) \<noteq> Inl ZeroDivisionError"
proof -
  have q: "quadratic_coefficients (test_ball 1 0) (DummpPlayer 0 0 0 0 1) = Inr (1, 0, -1)"
    by (simp add: fixture_defs quadratic_coefficients_def move_vel_threshold_def Let_def)
  have m: "mass (test_ball 1 0) \<noteq> 0" by (simp add: fixture_defs)
  have p: "position_components_wcs (DummpPlayer 0 0 0 0 1)
             = (x_pos (test_ball 1 0), y_pos (test_ball 1 0))"
    by (simp add: fixture_defs)
  show ?thesis
    using division_by_zero_conditions [of "test_ball 1 0" "DummpPlayer 0 0 0 0 1" 5] m p q
    by blast
qed

subsection \<open>The resolvers do not move the ball\<close>

text \<open>
  C10. The wall rebound, the receive transfer, and every successful elastic rebound and
  kick leave the position of the ball as it was. A resolver that raises has made no
  assignment yet.
\<close>

theorem resolvers_keep_position:
  "get_position (wall_collision b w) = get_position b
   \<and> get_position (receive_collision b co) = get_position b
   \<and> (\<forall>b'. elastic_collision_with_round_player b co = Inr b'
          \<longrightarrow> get_position b' = get_position b)
   \<and> (\<forall>b'. kick_collision b co kv = Inr b' \<longrightarrow> get_position b' = get_position b)"
  by (auto simp: get_position_def wall_collision_def receive_collision_def Let_def
      elastic_collision_with_round_player_def reflect_velocity_def kick_collision_def
      split: prod.splits sum.splits if_splits option.splits)

lemma elastic_collision_head_on:
  "elastic_collision_with_round_player (test_ball 1 0) (DummpPlayer 2 0 0 0 1)
     = Inr (test_ball (-1) 0)"
  by (simp add: fixture_defs elastic_collision_with_round_player_def
      quadratic_coefficients_def move_vel_threshold_def discriminant_def
      intersection_points_def collision_point_def reflect_velocity_def Let_def)

lemma kick_from_the_left:
  "kick_collision (test_ball 1 0) (DummpPlayer (-1) 0 0 0 1) (Some 5) = Inr (test_ball 3 0)"
  by (simp add: fixture_defs kick_collision_def)

text \<open>
  Witness for C10: a head-on elastic rebound turns the velocity \<open>(1, 0)\<close> into
  \<open>(-1, 0)\<close>, a kick from the left sets it to \<open>(3, 0)\<close>; the ball stays at the origin,
  while a step moves it.
\<close>

theorem resolvers_keep_position_witness:
  "elastic_collision_with_round_player (test_ball 1 0) (DummpPlayer 2 0 0 0 1)
     = Inr (test_ball (-1) 0)
   \<and> kick_collision (test_ball 1 0) (DummpPlayer (-1) 0 0 0 1) (Some 5) = Inr (test_ball 3 0)
   \<and> get_position (test_ball 1 0) = (0, 0)
   \<and> get_position (test_ball (-1) 0) = get_position (test_ball 1 0)
   \<and> get_position (test_ball 3 0) = get_position (test_ball 1 0)
   \<and> ball_step (test_ball 1 0) = Inr ((test_ball (99/100) 0)\<lparr>x_pos := 199/2000\<rparr>)
   \<and> get_position ((test_ball (99/100) 0)\<lparr>x_pos := 199/2000\<rparr>) = (199/2000, 0)"
proof -
  have "get_position (test_ball (-1) 0) = get_position (test_ball 1 0)"
    using resolvers_keep_position [of "test_ball 1 0" "''vertical''" "DummpPlayer 2 0 0 0 1" "Some 5"]
      elastic_collision_head_on by blast
  moreover have "get_position (test_ball 3 0) = get_position (test_ball 1 0)"
    using resolvers_keep_position [of "test_ball 1 0" "''vertical''" "DummpPlayer (-1) 0 0 0 1" "Some 5"]
      kick_from_the_left by blast
  moreover have "get_position (test_ball 1 0) = (0, 0)"
    by (simp add: fixture_defs get_position_def)
  moreover have "ball_step (test_ball 1 0) = Inr ((test_ball (99/100) 0)\<lparr>x_pos := 199/2000\<rparr>)"
    by (simp add: fixture_defs ball_step_def Let_def power2_eq_square)
  moreover have "get_position ((test_ball (99/100) 0)\<lparr>x_pos := 199/2000\<rparr>) = (199/2000, 0)"
    by (simp add: fixture_defs get_position_def)
  ultimately show ?thesis using elastic_collision_head_on kick_from_the_left by blast
qed

section \<open>Robot: properties\<close>

subsection \<open>The heading after a step\<close>

lemma clip_angle_range:
  assumes "- (3 * pi) \<le> a" "a \<le> 3 * pi"
  shows "- pi \<le> clip_angle a \<and> clip_angle a \<le> pi"
proof (cases "\<bar>a\<bar> > pi")
  case False
  then show ?thesis by (simp add: clip_angle_def) linarith
next
  case True
  show ?thesis
  proof (cases "a > 0")
    case True
    then have "clip_angle a = a - 2 * pi" using \<open>\<bar>a\<bar> > pi\<close> by (simp add: clip_angle_def)
    then show ?thesis using assms True \<open>\<bar>a\<bar> > pi\<close> by simp
  next
    case False
    then have neg: "a < 0" using True pi_gt_zero by linarith
    then have "clip_angle a = a + 2 * pi" using True by (simp add: clip_angle_def)
    then show ?thesis using assms neg True by simp
  qed
qed

lemma robot_step_Inr:
  assumes "axis_len rob \<noteq> 0"
  shows "robot_step rob l r act =
     Inr (rob\<lparr>vel := (wheel_radius rob / 2) * (l + r),
               x_pos_EFCS := x_pos_EFCS rob + (wheel_radius rob * robot_dt rob / 2) * (l + r) * cos (pointing_angle rob),
               y_pos_EFCS := y_pos_EFCS rob + (wheel_radius rob * robot_dt rob / 2) * (l + r) * sin (pointing_angle rob),
               pointing_angle := clip_angle (pointing_angle rob + (wheel_radius rob * robot_dt rob / axis_len rob) * (l - r))\<rparr>, act)"
  using assms by (simp add: robot_step_def Let_def)

lemma robot_step_heading:
  assumes ax: "axis_len rob \<noteq> 0"
    and h: "- pi \<le> pointing_angle rob" "pointing_angle rob \<le> pi"
    and d: "\<bar>wheel_radius rob * robot_dt rob / axis_len rob * (l - r)\<bar> \<le> 2 * pi"
  shows "\<exists>rob'. robot_step rob l r act = Inr (rob', act)
           \<and> - pi \<le> pointing_angle rob' \<and> pointing_angle rob' \<le> pi
           \<and> axis_len rob' = axis_len rob \<and> wheel_radius rob' = wheel_radius rob
           \<and> robot_dt rob' = robot_dt rob"
proof -
  let ?q = "pointing_angle rob + (wheel_radius rob * robot_dt rob / axis_len rob) * (l - r)"
  have "- (3 * pi) \<le> ?q" "?q \<le> 3 * pi" using h d by linarith+
  then have "- pi \<le> clip_angle ?q \<and> clip_angle ?q \<le> pi" by (rule clip_angle_range)
  then show ?thesis unfolding robot_step_Inr [OF ax] by simp
qed

text \<open>
  Counterexample for C3. From the heading \<open>0\<close> of the default robot, the wheel speeds
  \<open>(400, 0)\<close> turn by \<open>16\<close> radians; the single wrap leaves \<open>16 - 2\<pi> > \<pi>\<close>. The wheel
  speeds \<open>(0, 25\<pi>)\<close> turn by \<open>-\<pi>\<close>, which is not wrapped and is outside \<open>(-\<pi>, \<pi>]\<close>.
\<close>

theorem heading_leaves_half_open_range:
  "- pi < pointing_angle test_robot \<and> pointing_angle test_robot \<le> pi
   \<and> robot_step test_robot 400 0 NO
        = Inr (test_robot\<lparr>vel := 4, x_pos_EFCS := 2/5, pointing_angle := 16 - 2 * pi\<rparr>, NO)
   \<and> \<not> (16 - 2 * pi \<le> pi)
   \<and> robot_step test_robot 0 (25 * pi) NO
        = Inr (test_robot\<lparr>vel := pi / 4, x_pos_EFCS := pi / 40, pointing_angle := - pi\<rparr>, NO)
   \<and> \<not> (- pi < - pi)"
  using pi_less_4 by (simp add: test_robot_def robot_step_def clip_angle_def Let_def)

text \<open>
  C3, amended. For every initial heading in the closed interval \<open>[-\<pi>, \<pi>]\<close>, a non-zero
  axis length, and every finite sequence of wheel-speed pairs each of which turns the
  robot by at most \<open>2\<pi>\<close> in one step, every step succeeds and the heading after each
  step lies in \<open>[-\<pi>, \<pi>]\<close>.
\<close>

theorem heading_stays_in_closed_range:
  assumes "axis_len rob \<noteq> 0"
    and "- pi \<le> pointing_angle rob" "pointing_angle rob \<le> pi"
    and "\<forall>(l, r) \<in> set ws. \<bar>wheel_radius rob * robot_dt rob / axis_len rob * (l - r)\<bar> \<le> 2 * pi"
  shows "\<exists>rs. robot_steps rob ws = Inr rs \<and> length rs = length ws
           \<and> (\<forall>rob' \<in> set rs. - pi \<le> pointing_angle rob' \<and> pointing_angle rob' \<le> pi)"
  using assms
proof (induction ws arbitrary: rob)
  case Nil
  then show ?case by simp
next
  case (Cons w ws)
  obtain l r where w: "w = (l, r)" by (cases w)
  have d: "\<bar>wheel_radius rob * robot_dt rob / axis_len rob * (l - r)\<bar> \<le> 2 * pi"
    using Cons.prems(4) w by simp
  obtain rob' where st: "robot_step rob l r NO = Inr (rob', NO)"
    and h': "- pi \<le> pointing_angle rob'" "pointing_angle rob' \<le> pi"
    and p: "axis_len rob' = axis_len rob" "wheel_radius rob' = wheel_radius rob" "robot_dt rob' = robot_dt rob"
    using robot_step_heading [OF Cons.prems(1-3) d] by blast
  have "\<forall>(l, r) \<in> set ws. \<bar>wheel_radius rob' * robot_dt rob' / axis_len rob' * (l - r)\<bar> \<le> 2 * pi"
    using Cons.prems(4) unfolding p by simp
  moreover have "axis_len rob' \<noteq> 0" using Cons.prems(1) p by simp
  ultimately obtain rs where rs: "robot_steps rob' ws = Inr rs" "length rs = length ws"
      "\<forall>rob'' \<in> set rs. - pi \<le> pointing_angle rob'' \<and> pointing_angle rob'' \<le> pi"
    using Cons.IH [OF _ h'] by blast
  show ?case using st rs h' by (simp add: w)
qed

text \<open>
  Witness for C3: the default robot driven with \<open>(5, 4)\<close> and then with \<open>(0, 25\<pi>)\<close>,
  a turn by \<open>-\<pi>\<close>.
\<close>

theorem heading_stays_in_closed_range_witness:
  "axis_len test_robot \<noteq> 0
   \<and> - pi \<le> pointing_angle test_robot \<and> pointing_angle test_robot \<le> pi
   \<and> \<bar>wheel_radius test_robot * robot_dt test_robot / axis_len test_robot * (5 - 4)\<bar> \<le> 2 * pi
   \<and> \<bar>wheel_radius test_robot * robot_dt test_robot / axis_len test_robot * (0 - 25 * pi)\<bar>
        \<le> 2 * pi
   \<and> (\<exists>rs. robot_steps test_robot [(5, 4), (0, 25 * pi)] = Inr rs
           \<and> length rs = length [(5, 4), (0, 25 * pi) :: real \<times> real]
           \<and> (\<forall>rob' \<in> set rs. - pi \<le> pointing_angle rob' \<and> pointing_angle rob' \<le> pi))"
proof -
  have a: "axis_len test_robot \<noteq> 0" by (simp add: test_robot_def)
  have h: "- pi \<le> pointing_angle test_robot" "pointing_angle test_robot \<le> pi"
    by (simp_all add: test_robot_def)
  have d1: "\<bar>wheel_radius test_robot * robot_dt test_robot / axis_len test_robot * (5 - 4)\<bar>
              \<le> 2 * pi"
    using pi_ge_two by (simp add: test_robot_def)
  have d2: "\<bar>wheel_radius test_robot * robot_dt test_robot / axis_len test_robot
               * (0 - 25 * pi)\<bar> \<le> 2 * pi"
    by (simp add: test_robot_def)
  have d: "\<forall>(l, r) \<in> set [(5, 4), (0, 25 * pi)].
         \<bar>wheel_radius test_robot * robot_dt test_robot / axis_len test_robot * (l - r)\<bar> \<le> 2 * pi"
    using d1 d2 by simp
  show ?thesis
    using heading_stays_in_closed_range [OF a h d] a h d1 d2 by blast
qed

subsection \<open>The step restricted by a collision\<close>




subsection \<open>The restricted step in double precision\<close>







































subsection \<open>Snapping to the grid at a wall\<close>

lemma np_round_nearest:
  "\<exists>n::int. np_round x = of_int n \<and> \<bar>x - of_int n\<bar> \<le> 1/2 \<and> (\<bar>x - of_int n\<bar> = 1/2 \<longrightarrow> even n)"
proof -
  define f where "f = \<lfloor>x\<rfloor>"
  define d where "d = x - of_int f"
  have d0: "0 \<le> d" "d < 1" unfolding d_def f_def by linarith+
  have e1: "\<bar>x - of_int f\<bar> = d" using d0 by (simp add: d_def)
  have e2: "\<bar>x - of_int (f + 1)\<bar> = 1 - d" using d0 by (simp add: d_def)
  consider "d < 1/2" | "d > 1/2" | "d = 1/2" "even f" | "d = 1/2" "odd f" by fastforce
  then show ?thesis
  proof cases
    case 1
    then have "np_round x = of_int f" by (simp add: np_round_def Let_def f_def d_def)
    then show ?thesis unfolding e1 [symmetric] using 1 by (intro exI [of _ f]) (simp add: e1)
  next
    case 2
    then have "np_round x = of_int (f + 1)" by (simp add: np_round_def Let_def f_def d_def)
    then show ?thesis using 2 by (intro exI [of _ "f + 1"]) (simp only: e2, simp)
  next
    case 3
    then have "np_round x = of_int f" by (simp add: np_round_def Let_def f_def d_def)
    then show ?thesis using 3 by (intro exI [of _ f]) (simp add: e1)
  next
    case 4
    then have "np_round x = of_int (f + 1)" by (simp add: np_round_def Let_def f_def d_def)
    then show ?thesis using 4 by (intro exI [of _ "f + 1"]) (simp only: e2, simp)
  qed
qed

lemma np_round_examples:
  "np_round (5/2) = 2" "np_round (49/10) = 5" "np_round (- (49/10)) = -5"
  by (simp_all add: np_round_def Let_def)

text \<open>
  Counterexample for C4. A robot at \<open>x = 2.5\<close> that meets a vertical wall is snapped to
  \<open>x = 2\<close>, the even neighbour and the one nearer to the centre of the field; rounding
  toward the field edge gives \<open>3\<close>.
\<close>

theorem snap_rounds_half_to_even:
  "collision_blocker (test_robot\<lparr>x_pos_EFCS := 5/2\<rparr>) WALL_VERTICAL COLLISION_NO []
     = Inr (test_robot\<lparr>x_pos_EFCS := 2\<rparr>, 0, pi / 2)
   \<and> collision_step (test_robot\<lparr>x_pos_EFCS := 5/2\<rparr>) WALL_VERTICAL COLLISION_NO [] 0 0 NO
     = Inr (test_robot\<lparr>x_pos_EFCS := 2\<rparr>, NO)
   \<and> spec_round_toward_edge (5/2) = 3
   \<and> \<bar>2\<bar> < \<bar>5/2 :: real\<bar>"
  by (simp add: collision_step_def collision_blocker_def np_round_examples
      spec_round_toward_edge_def step_with_restrictions_def robot_step_def clip_angle_def
      test_robot_def Let_def)

text \<open>
  C4, amended. When there is no player collision, \<^verbatim>\<open>collision_step\<close> runs the
  restricted step on the robot whose coordinate is snapped: \<open>x\<close> for a vertical wall,
  \<open>y\<close> for a horizontal wall, both otherwise. The snapped coordinate is \<open>np_round\<close> of
  the prior one: an integer at distance at most one half, and the even one when the
  distance is exactly one half.
\<close>

theorem wall_collision_snaps:
  assumes "players_collision \<noteq> PLAYER"
  shows "(wc = WALL_VERTICAL \<longrightarrow>
            collision_blocker rob wc players_collision cl
              = Inr (rob\<lparr>x_pos_EFCS := np_round (x_pos_EFCS rob)\<rparr>,
                     (if x_pos_EFCS rob > 0 then 0 else - pi), pi / 2))
       \<and> (wc = WALL_HORIZONTAL \<longrightarrow>
            collision_blocker rob wc players_collision cl
              = Inr (rob\<lparr>y_pos_EFCS := np_round (y_pos_EFCS rob)\<rparr>,
                     (if y_pos_EFCS rob > 0 then pi / 2 else - (pi / 2)), pi / 2))
       \<and> (wc \<noteq> COLLISION_NO \<and> wc \<noteq> WALL_VERTICAL \<and> wc \<noteq> WALL_HORIZONTAL \<longrightarrow>
            (\<exists>ba. collision_blocker rob wc players_collision cl
                      = Inr (rob\<lparr>x_pos_EFCS := np_round (x_pos_EFCS rob),
                                 y_pos_EFCS := np_round (y_pos_EFCS rob)\<rparr>, ba, 3 * pi / 4)))
       \<and> collision_step rob wc players_collision cl l r act
            = (case collision_blocker rob wc players_collision cl of
                 Inl e \<Rightarrow> Inl e
               | Inr (rob', ba, ra) \<Rightarrow>
                   map_sum id (\<lambda>rob''. (rob'', act)) (step_with_restrictions rob' ba ra l r))
       \<and> (\<forall>x. \<exists>n::int. np_round x = of_int n \<and> \<bar>x - of_int n\<bar> \<le> 1/2
                 \<and> (\<bar>x - of_int n\<bar> = 1/2 \<longrightarrow> even n))"
proof -
  have "\<forall>x. \<exists>n::int. np_round x = of_int n \<and> \<bar>x - of_int n\<bar> \<le> 1/2
                 \<and> (\<bar>x - of_int n\<bar> = 1/2 \<longrightarrow> even n)"
    using np_round_nearest by blast
  moreover have "wc = WALL_VERTICAL \<longrightarrow>
            collision_blocker rob wc players_collision cl
              = Inr (rob\<lparr>x_pos_EFCS := np_round (x_pos_EFCS rob)\<rparr>,
                     (if x_pos_EFCS rob > 0 then 0 else - pi), pi / 2)"
    using assms by (simp add: collision_blocker_def)
  moreover have "wc = WALL_HORIZONTAL \<longrightarrow>
            collision_blocker rob wc players_collision cl
              = Inr (rob\<lparr>y_pos_EFCS := np_round (y_pos_EFCS rob)\<rparr>,
                     (if y_pos_EFCS rob > 0 then pi / 2 else - (pi / 2)), pi / 2)"
    using assms by (simp add: collision_blocker_def)
  moreover have "wc \<noteq> COLLISION_NO \<and> wc \<noteq> WALL_VERTICAL \<and> wc \<noteq> WALL_HORIZONTAL \<longrightarrow>
            (\<exists>ba. collision_blocker rob wc players_collision cl
                      = Inr (rob\<lparr>x_pos_EFCS := np_round (x_pos_EFCS rob),
                                 y_pos_EFCS := np_round (y_pos_EFCS rob)\<rparr>, ba, 3 * pi / 4))"
    using assms by (simp add: collision_blocker_def)
  moreover have "collision_step rob wc players_collision cl l r act
            = (case collision_blocker rob wc players_collision cl of
                 Inl e \<Rightarrow> Inl e
               | Inr (rob', ba, ra) \<Rightarrow>
                   map_sum id (\<lambda>rob''. (rob'', act)) (step_with_restrictions rob' ba ra l r))"
    by (simp add: collision_step_def split: sum.splits prod.splits)
  ultimately show ?thesis by blast
qed

text \<open>
  Witness for C4: at \<open>x = 4.9\<close> a vertical wall snaps the robot to \<open>x = 5\<close>, at
  \<open>y = -4.9\<close> a horizontal wall snaps it to \<open>y = -5\<close>, and a corner does both.
\<close>

theorem wall_collision_snaps_witness:
  "COLLISION_NO \<noteq> PLAYER
   \<and> collision_blocker (test_robot\<lparr>x_pos_EFCS := 49/10\<rparr>) WALL_VERTICAL COLLISION_NO []
       = Inr (test_robot\<lparr>x_pos_EFCS := 5\<rparr>, 0, pi / 2)
   \<and> collision_blocker (test_robot\<lparr>y_pos_EFCS := -49/10\<rparr>) WALL_HORIZONTAL COLLISION_NO []
       = Inr (test_robot\<lparr>y_pos_EFCS := -5\<rparr>, - (pi / 2), pi / 2)
   \<and> (\<exists>ba. collision_blocker (test_robot\<lparr>x_pos_EFCS := 49/10, y_pos_EFCS := -49/10\<rparr>)
               WALL_CORNER COLLISION_NO []
             = Inr (test_robot\<lparr>x_pos_EFCS := 5, y_pos_EFCS := -5\<rparr>, ba, 3 * pi / 4))"
proof -
  have n: "COLLISION_NO \<noteq> PLAYER" by simp
  have v: "collision_blocker (test_robot\<lparr>x_pos_EFCS := 49/10\<rparr>) WALL_VERTICAL COLLISION_NO []
       = Inr (test_robot\<lparr>x_pos_EFCS := 5\<rparr>, 0, pi / 2)"
    using wall_collision_snaps [OF n, of WALL_VERTICAL "test_robot\<lparr>x_pos_EFCS := 49/10\<rparr>" "[]"]
    by (simp add: np_round_examples)
  have h: "collision_blocker (test_robot\<lparr>y_pos_EFCS := -49/10\<rparr>) WALL_HORIZONTAL COLLISION_NO []
       = Inr (test_robot\<lparr>y_pos_EFCS := -5\<rparr>, - (pi / 2), pi / 2)"
    using wall_collision_snaps [OF n, of WALL_HORIZONTAL "test_robot\<lparr>y_pos_EFCS := -49/10\<rparr>" "[]"]
    by (simp add: np_round_examples)
  have c: "\<exists>ba. collision_blocker (test_robot\<lparr>x_pos_EFCS := 49/10, y_pos_EFCS := -49/10\<rparr>)
               WALL_CORNER COLLISION_NO []
             = Inr (test_robot\<lparr>x_pos_EFCS := 5, y_pos_EFCS := -5\<rparr>, ba, 3 * pi / 4)"
    using wall_collision_snaps [OF n, of WALL_CORNER
        "test_robot\<lparr>x_pos_EFCS := 49/10, y_pos_EFCS := -49/10\<rparr>" "[]"]
    by (simp add: np_round_examples)
  show ?thesis using n v h c by blast
qed

end
